theory Spec2Isabelle
  imports
    Complex_Main
    "HOL-Library.Char_ord"
    "HOL-Library.List_Lexorder"
    "HOL-Library.Product_Lexorder"
begin

section \<open>Data frames\<close>

text \<open>
  The dashboard of \<^verbatim>\<open>app/app.py\<close> works on pandas data frames. A frame is modelled as
  the ordered list of its named columns; a column carries its dtype as its constructor.
  A \<^verbatim>\<open>float64\<close> cell is the real number that the float stands for, one of the two
  infinities, or NaN (the missing marker). The cleaning steps copy and compare such cells;
  the one place where they compute a new float, the mean of two values inside a median, is
  a parameter of the model (see \<open>median\<close> below). An \<^verbatim>\<open>object\<close> or \<^verbatim>\<open>category\<close> cell is
  a string or missing (\<open>None\<close>); a string is the UTF-8 encoding of the Python string.
  Integer and boolean columns cannot hold a missing value, as in pandas.
\<close>

datatype fval = Fin real | PInf | NInf | NaN

datatype column =
    IntCol "int list"
  | FloatCol "fval list"
  | BoolCol "bool list"
  | ObjCol "string option list"
  | CatCol "string option list"

type_synonym frame = "(string \<times> column) list"

datatype py_error = KeyError | ValueError | IndexError | TypeError | AttributeError

text \<open>What the script hands to the Streamlit runtime, in the order of the calls.\<close>

datatype ui_event =
    St_title string
  | St_image string nat
  | St_subheader string
  | St_dataframe frame
  | St_write string
  | St_write_accuracy real
  | St_text_report "int list" "int list"
  | St_write_matrix "nat list list"
  | St_error string
  | St_success string

fun col_len :: "column \<Rightarrow> nat" where
  "col_len (IntCol xs) = length xs"
| "col_len (FloatCol xs) = length xs"
| "col_len (BoolCol xs) = length xs"
| "col_len (ObjCol xs) = length xs"
| "col_len (CatCol xs) = length xs"

definition columns :: "frame \<Rightarrow> string list" where
  "columns df = map fst df"

text \<open>\<^verbatim>\<open>len(df)\<close>: every column of a frame has the length of its index.\<close>

definition nrows :: "frame \<Rightarrow> nat" where
  "nrows df = (case df of [] \<Rightarrow> 0 | (_, c) # _ \<Rightarrow> col_len c)"

text \<open>
  The frames \<^verbatim>\<open>read_csv\<close> produces: column names are pairwise different and all columns
  have the same number of rows. Stripping and renaming can make two names equal. Selecting
  by a name that occurs twice gives pandas a two-column frame instead of a column, and what
  the fill and the downcast below do with it depends on the pandas version; they are
  modelled for numeric columns whose names are pairwise different, and the theorems about
  them say so.
\<close>

definition wf_frame :: "frame \<Rightarrow> bool" where
  "wf_frame df \<longleftrightarrow> distinct (columns df) \<and> list_all (\<lambda>(n, c). col_len c = nrows df) df"

text \<open>Boolean-mask row selection, \<^verbatim>\<open>s[mask]\<close>.\<close>

definition keep :: "bool list \<Rightarrow> 'a list \<Rightarrow> 'a list" where
  "keep m xs = map snd (filter fst (zip m xs))"

fun take_rows :: "bool list \<Rightarrow> column \<Rightarrow> column" where
  "take_rows m (IntCol xs) = IntCol (keep m xs)"
| "take_rows m (FloatCol xs) = FloatCol (keep m xs)"
| "take_rows m (BoolCol xs) = BoolCol (keep m xs)"
| "take_rows m (ObjCol xs) = ObjCol (keep m xs)"
| "take_rows m (CatCol xs) = CatCol (keep m xs)"

text \<open>The same operation on every column, names and order kept.\<close>

definition map_cols :: "(column \<Rightarrow> column) \<Rightarrow> frame \<Rightarrow> frame" where
  "map_cols f df = map (\<lambda>(n, c). (n, f c)) df"

definition filter_rows :: "bool list \<Rightarrow> frame \<Rightarrow> frame" where
  "filter_rows m df = map_cols (take_rows m) df"

text \<open>\<^verbatim>\<open>Series.notna()\<close>: an infinity is not a missing value.\<close>

fun notna :: "column \<Rightarrow> bool list" where
  "notna (IntCol xs) = map (\<lambda>_. True) xs"
| "notna (FloatCol xs) = map (\<lambda>v. v \<noteq> NaN) xs"
| "notna (BoolCol xs) = map (\<lambda>_. True) xs"
| "notna (ObjCol xs) = map (\<lambda>v. v \<noteq> None) xs"
| "notna (CatCol xs) = map (\<lambda>v. v \<noteq> None) xs"

text \<open>\<^verbatim>\<open>df[name] = col\<close>: every column of that name is replaced where it stands; when
  there is none, a new column is appended.\<close>

definition set_column :: "string \<Rightarrow> column \<Rightarrow> frame \<Rightarrow> frame" where
  "set_column name col df =
     (if name \<in> set (columns df) then map (\<lambda>(n, c). (n, if n = name then col else c)) df
      else df @ [(name, col)])"

text \<open>\<^verbatim>\<open>df.dropna(subset=[name])\<close> keeps the rows in which no column of that name is
  missing: the columns of that name, and the mask over \<open>n\<close> rows.\<close>

definition named_columns :: "string \<Rightarrow> frame \<Rightarrow> column list" where
  "named_columns name df = map snd (filter (\<lambda>(n, c). n = name) df)"

fun all_notna :: "column list \<Rightarrow> nat \<Rightarrow> bool list" where
  "all_notna [] n = replicate n True"
| "all_notna (c # cs) n = map (\<lambda>(a, b). a \<and> b) (zip (notna c) (all_notna cs n))"

section \<open>Missing and infinite values\<close>

text \<open>\<^verbatim>\<open>data.replace([np.inf, -np.inf], np.nan, inplace=True)\<close>\<close>

definition inf_to_nan :: "fval \<Rightarrow> fval" where
  "inf_to_nan v = (if v = PInf \<or> v = NInf then NaN else v)"

fun replace_inf :: "column \<Rightarrow> column" where
  "replace_inf (FloatCol xs) = FloatCol (map inf_to_nan xs)"
| "replace_inf c = c"

fun finite_part :: "fval list \<Rightarrow> real list" where
  "finite_part [] = []"
| "finite_part (Fin r # vs) = r # finite_part vs"
| "finite_part (_ # vs) = finite_part vs"

text \<open>
  The median of a non-empty list of floats: the middle of the sorted values, which is one
  of them, or the mean of the two middle ones. That mean is computed in \<^verbatim>\<open>float64\<close>:
  the sum is rounded and is an infinity when it overflows, as for two values of
  \<open>2 ^ 1023\<close>. It is the parameter \<open>fm\<close>, which gives the float that numpy returns for
  the mean of two finite floats.
\<close>

definition median :: "(real \<Rightarrow> real \<Rightarrow> fval) \<Rightarrow> real list \<Rightarrow> fval" where
  "median fm rs =
     (let s = sort rs; n = length s
      in if odd n then Fin (s ! (n div 2)) else fm (s ! (n div 2 - 1)) (s ! (n div 2)))"

text \<open>
  \<^verbatim>\<open>Series.median()\<close> skips missing values and is NaN when nothing is left. It is taken
  after the infinities have been replaced, so every value it sees is finite or NaN.
\<close>

definition series_median :: "(real \<Rightarrow> real \<Rightarrow> fval) \<Rightarrow> fval list \<Rightarrow> fval" where
  "series_median fm vs = (let rs = finite_part vs in if rs = [] then NaN else median fm rs)"

definition fillna :: "fval \<Rightarrow> fval list \<Rightarrow> fval list" where
  "fillna fill vs = map (\<lambda>v. if v = NaN then fill else v) vs"

text \<open>
  One round of the loop over \<^verbatim>\<open>select_dtypes(include=['int', 'float'])\<close>:
  \<^verbatim>\<open>data[col].fillna(data[col].median(), inplace=True)\<close>. The fill is a method call on
  the selected column; it reaches the frame in pandas without copy-on-write (before
  version 3), which is the behaviour modelled. An integer column is selected too, and has
  nothing to fill; the other dtypes are not selected.
\<close>

fun fill_median :: "(real \<Rightarrow> real \<Rightarrow> fval) \<Rightarrow> column \<Rightarrow> column" where
  "fill_median fm (FloatCol vs) = FloatCol (fillna (series_median fm vs) vs)"
| "fill_median fm c = c"

definition label_missing_msg :: string where
  "label_missing_msg = ''Label column not found in the dataset.''"

text \<open>
  \<^verbatim>\<open>handle_missing_values(data)\<close> returns the frame together with what it showed to the
  user. Nothing leaves the function between the \<^verbatim>\<open>if\<close>/\<^verbatim>\<open>else\<close> and the replacement
  and fill that follow it.
\<close>

definition handle_missing_values ::
  "(real \<Rightarrow> real \<Rightarrow> fval) \<Rightarrow> frame \<Rightarrow> frame \<times> ui_event list" where
  "handle_missing_values fm data =
     (let (data1, ui) =
            (if ''Label'' \<in> set (columns data)
             then (filter_rows (all_notna (named_columns ''Label'' data) (nrows data)) data, [])
             else (data, [St_error label_missing_msg]));
          data2 = map_cols replace_inf data1;
          data3 = map_cols (fill_median fm) data2
      in (data3, ui))"

definition is_fin :: "fval \<Rightarrow> bool" where
  "is_fin v = (case v of Fin r \<Rightarrow> True | _ \<Rightarrow> False)"

text \<open>What replacement and fill together do to one cell, and to one column, given the
  median \<open>m\<close> of the column: a finite value stays, every other cell becomes \<open>m\<close>.\<close>

definition imputed :: "fval \<Rightarrow> fval \<Rightarrow> fval" where
  "imputed m v = (if is_fin v then v else m)"

fun impute_col :: "(real \<Rightarrow> real \<Rightarrow> fval) \<Rightarrow> column \<Rightarrow> column" where
  "impute_col fm (FloatCol vs) = FloatCol (map (imputed (series_median fm vs)) vs)"
| "impute_col fm c = c"

section \<open>Memory optimisation and loading\<close>

text \<open>
  \<^verbatim>\<open>pd.to_numeric(data[col], downcast='float')\<close> on the integer and float columns: an
  integer column comes back as a float column with the same values, a float column keeps
  its values in a narrower float type (the narrowing's rounding is not modelled).
\<close>

fun downcast_float :: "column \<Rightarrow> column" where
  "downcast_float (IntCol xs) = FloatCol (map (\<lambda>i. Fin (of_int i)) xs)"
| "downcast_float c = c"

text \<open>\<^verbatim>\<open>data[col].astype('category')\<close> on the object columns.\<close>

fun to_category :: "column \<Rightarrow> column" where
  "to_category (ObjCol xs) = CatCol xs"
| "to_category c = c"

definition optimize_memory_usage ::
  "(real \<Rightarrow> real \<Rightarrow> fval) \<Rightarrow> frame \<Rightarrow> frame \<times> ui_event list" where
  "optimize_memory_usage fm data0 =
     (let (data, ui) = handle_missing_values fm data0;
          data1 = map_cols downcast_float data;
          data2 = map_cols to_category data1
      in (data2, ui))"

text \<open>
  \<^verbatim>\<open>str.strip()\<close> removes leading and trailing whitespace characters. A name is the
  UTF-8 encoding of a Python string, so it is first cut into its characters: a byte of the
  form \<open>10xxxxxx\<close> continues the character before it. The whitespace characters are those
  of Python's \<^verbatim>\<open>str.isspace\<close>: U+0009 to U+000D, U+001C to U+0020, U+0085, U+00A0,
  U+1680, U+2000 to U+200A, U+2028, U+2029, U+202F, U+205F and U+3000.
\<close>

definition is_continuation :: "char \<Rightarrow> bool" where
  "is_continuation c = (let k = (of_char c :: nat) in 128 \<le> k \<and> k < 192)"

fun utf8_chars :: "string \<Rightarrow> string list" where
  "utf8_chars [] = []"
| "utf8_chars (c # cs) =
     (case utf8_chars cs of
        [] \<Rightarrow> [[c]]
      | g # gs \<Rightarrow>
          if (case g of [] \<Rightarrow> False | d # _ \<Rightarrow> is_continuation d) then (c # g) # gs
          else [c] # g # gs)"

definition is_space :: "string \<Rightarrow> bool" where
  "is_space ch =
     (case map of_char ch :: nat list of
        [k] \<Rightarrow> (9 \<le> k \<and> k \<le> 13) \<or> (28 \<le> k \<and> k \<le> 32)
      | [k1, k2] \<Rightarrow> k1 = 0xC2 \<and> (k2 = 0x85 \<or> k2 = 0xA0)
      | [k1, k2, k3] \<Rightarrow>
          (k1 = 0xE1 \<and> k2 = 0x9A \<and> k3 = 0x80)
          \<or> (k1 = 0xE2 \<and> k2 = 0x80 \<and> ((0x80 \<le> k3 \<and> k3 \<le> 0x8A) \<or> k3 = 0xA8 \<or> k3 = 0xA9 \<or> k3 = 0xAF))
          \<or> (k1 = 0xE2 \<and> k2 = 0x81 \<and> k3 = 0x9F)
          \<or> (k1 = 0xE3 \<and> k2 = 0x80 \<and> k3 = 0x80)
      | _ \<Rightarrow> False)"

definition strip :: "string \<Rightarrow> string" where
  "strip s = concat (rev (dropWhile is_space (rev (dropWhile is_space (utf8_chars s)))))"

definition strip_columns :: "frame \<Rightarrow> frame" where
  "strip_columns df = map (\<lambda>(n, c). (strip n, c)) df"

definition rename_column :: "string \<Rightarrow> string \<Rightarrow> frame \<Rightarrow> frame" where
  "rename_column old new df = map (\<lambda>(n, c). (if n = old then new else n, c)) df"

text \<open>
  The body of the inner loop of \<^verbatim>\<open>load_and_combine_data\<close>, for one chunk: the names are
  stripped, the label column is found or made, and the chunk goes through
  \<^verbatim>\<open>optimize_memory_usage\<close>. The \<^verbatim>\<open>else\<close> branch assigns the scalar \<^verbatim>\<open>'normal'\<close> to
  \<^verbatim>\<open>chunk['Label']\<close>, which pandas broadcasts over the rows.
\<close>

definition load_chunk :: "(real \<Rightarrow> real \<Rightarrow> fval) \<Rightarrow> frame \<Rightarrow> frame \<times> ui_event list" where
  "load_chunk fm chunk0 =
     (let chunk = strip_columns chunk0;
          chunk1 =
            (if ''label'' \<in> set (columns chunk) then rename_column ''label'' ''Label'' chunk
             else if ''Class'' \<in> set (columns chunk) then rename_column ''Class'' ''Label'' chunk
             else set_column ''Label'' (ObjCol (replicate (nrows chunk) (Some ''normal''))) chunk)
      in optimize_memory_usage fm chunk1)"

section \<open>The libraries\<close>

text \<open>
  The calls into pandas and scikit-learn whose results the script only passes on are
  parameters of the model: the \<^verbatim>\<open>float64\<close> mean of two values that the median uses, the
  CSV reader (a file and a chunk size give the chunks),
  \<^verbatim>\<open>pd.concat(..., ignore_index=True)\<close>, \<^verbatim>\<open>pd.get_dummies\<close>, the scaler, the
  split, and the two fits. A fitted classifier or detector predicts row by row.
\<close>

type_synonym matrix = "real list list"
type_synonym predictor = "real list \<Rightarrow> int"
type_synonym split = "matrix \<times> matrix \<times> int list \<times> int list"

record ('file, 'sc) libs =
  float_mean :: "real \<Rightarrow> real \<Rightarrow> fval"
  read_csv :: "'file \<Rightarrow> nat \<Rightarrow> frame list"
  pd_concat :: "frame list \<Rightarrow> py_error + frame"
  get_dummies :: "frame \<Rightarrow> string list \<Rightarrow> bool \<Rightarrow> frame"
  scaler_fit_transform :: "frame \<Rightarrow> py_error + ('sc \<times> matrix)"
  train_test_split :: "matrix \<Rightarrow> column \<Rightarrow> rat \<Rightarrow> nat \<Rightarrow> column \<Rightarrow> py_error + split"
  random_forest_fit :: "nat \<Rightarrow> nat \<Rightarrow> matrix \<Rightarrow> int list \<Rightarrow> py_error + predictor"
  isolation_forest_fit :: "rat \<Rightarrow> nat \<Rightarrow> matrix \<Rightarrow> py_error + predictor"

text \<open>The list \<^verbatim>\<open>combined_data\<close> at the end of the two loops, with what was shown.\<close>

definition combined_chunks :: "('file, 'sc) libs \<Rightarrow> 'file list \<Rightarrow> (frame \<times> ui_event list) list" where
  "combined_chunks L uploaded_files =
     map (load_chunk (float_mean L)) (concat (map (\<lambda>uploaded_file. read_csv L uploaded_file 10000) uploaded_files))"


section \<open>Feature preparation\<close>










section \<open>Training and evaluation\<close>



text \<open>\<^verbatim>\<open>accuracy_score\<close>: the mean of the vector of comparisons.\<close>

definition accuracy_score :: "int list \<Rightarrow> int list \<Rightarrow> real" where
  "accuracy_score y_true y_pred =
     (\<Sum>(t, p) \<leftarrow> zip y_true y_pred. if t = p then 1 else 0) / real (length y_true)"

text \<open>\<^verbatim>\<open>confusion_matrix\<close>: the classes are the labels that occur, true or predicted, in
  ascending order; the entry in row \<open>t\<close>, column \<open>p\<close> counts the rows of true class \<open>t\<close>
  predicted as \<open>p\<close>.\<close>

definition unique_labels :: "int list \<Rightarrow> int list \<Rightarrow> int list" where
  "unique_labels y_true y_pred = sort (remdups (y_true @ y_pred))"

definition confusion_matrix :: "int list \<Rightarrow> int list \<Rightarrow> nat list list" where
  "confusion_matrix y_true y_pred =
     (let labels = unique_labels y_true y_pred
      in map (\<lambda>t. map (\<lambda>p. length (filter (\<lambda>(a, b). a = t \<and> b = p) (zip y_true y_pred))) labels)
             labels)"

text \<open>
  \<^verbatim>\<open>evaluate_model(model, X_test, y_test)\<close>. The prediction refuses an empty matrix and
  the metrics refuse vectors of different lengths, both before anything is shown.
  \<open>St_write_accuracy a\<close> stands for the line \<^verbatim>\<open>f"Accuracy: {accuracy:.4f}"\<close> with
  \<open>a\<close> the value of \<^verbatim>\<open>accuracy\<close>, which the line prints to four decimals.
\<close>

definition evaluate_model :: "predictor \<Rightarrow> matrix \<Rightarrow> int list \<Rightarrow> py_error + ui_event list" where
  "evaluate_model model X_test y_test =
     (if X_test = [] then Inl ValueError
      else let predictions = map model X_test
           in if length y_test \<noteq> length predictions then Inl ValueError
              else let accuracy = accuracy_score y_test predictions;
                       cm = confusion_matrix y_test predictions
                   in Inr [St_write ''### Model Performance'',
                           St_write_accuracy accuracy,
                           St_text_report y_test predictions,
                           St_write ''#### Confusion Matrix'',
                           St_write_matrix cm])"

section \<open>The remote completion call\<close>

datatype json =
    JNull
  | JBool bool
  | JNum real
  | JStr string
  | JArr "json list"
  | JObj "(string \<times> json) list"

definition GROQ_API_URL :: string where
  "GROQ_API_URL = ''https://api.groq.com/v1/completions''"

definition API_KEY :: string where
  "API_KEY = ''your-api-key-here''"

text \<open>\<^verbatim>\<open>d.get(key, dflt)\<close> on a parsed JSON object, where the last of several equal
  keys counts.\<close>

definition dict_get :: "(string \<times> json) list \<Rightarrow> string \<Rightarrow> json \<Rightarrow> json" where
  "dict_get d key dflt = (case map_of (rev d) key of Some v \<Rightarrow> v | None \<Rightarrow> dflt)"

text \<open>\<^verbatim>\<open>v.get(key, dflt)\<close> on any parsed value: only an object has \<^verbatim>\<open>get\<close>.\<close>

fun py_get :: "json \<Rightarrow> string \<Rightarrow> json \<Rightarrow> py_error + json" where
  "py_get (JObj d) key dflt = Inr (dict_get d key dflt)"
| "py_get v key dflt = Inl AttributeError"

text \<open>\<^verbatim>\<open>v[0]\<close> on any parsed value.\<close>

fun py_first :: "json \<Rightarrow> py_error + json" where
  "py_first (JArr []) = Inl IndexError"
| "py_first (JArr (x # xs)) = Inr x"
| "py_first (JStr []) = Inl IndexError"
| "py_first (JStr (c # cs)) = Inr (JStr [c])"
| "py_first (JObj d) = Inl KeyError"
| "py_first v = Inl TypeError"

text \<open>\<^verbatim>\<open>response.json().get("choices", [{}])[0].get("text", "No response")\<close>\<close>

definition completion_text :: "json \<Rightarrow> py_error + json" where
  "completion_text body =
     (case py_get body ''choices'' (JArr [JObj []]) of
        Inl e \<Rightarrow> Inl e
      | Inr choices \<Rightarrow>
          (case py_first choices of
             Inl e \<Rightarrow> Inl e
           | Inr choice \<Rightarrow> py_get choice ''text'' (JStr ''No response'')))"

text \<open>
  \<^verbatim>\<open>predict_with_groq(input_data)\<close>. The HTTP round trip, with the parsing of the body,
  is the parameter \<open>post\<close>: the URL, the headers and the JSON payload give the parsed body
  or the exception raised on the way. \<open>input_data\<close> is the text the f-string puts into
  the prompt.
\<close>

definition predict_with_groq ::
  "(string \<Rightarrow> (string \<times> string) list \<Rightarrow> json \<Rightarrow> py_error + json) \<Rightarrow> string \<Rightarrow> py_error + json" where
  "predict_with_groq post input_data =
     (let headers = [(''Authorization'', ''Bearer '' @ API_KEY),
                     (''Content-Type'', ''application/json'')];
          payload = JObj [(''model'', JStr ''qwen-2.5-32b''),
                          (''prompt'', JStr (''Analyze the following network traffic data: '' @ input_data)),
                          (''temperature'', JNum (6 / 10)),
                          (''max_tokens'', JNum 100)]
      in (case post GROQ_API_URL headers payload of
            Inl e \<Rightarrow> Inl e
          | Inr body \<Rightarrow> completion_text body))"

section \<open>The page\<close>

definition alert_msg :: string where
  "alert_msg = [CHR 0xE2, CHR 0x9A, CHR 0xA0, CHR 0xEF, CHR 0xB8, CHR 0x8F]
                @ '' ALERT: Suspicious activities detected!''"

definition no_threat_msg :: string where
  "no_threat_msg = [CHR 0xE2, CHR 0x9C, CHR 0x85] @ '' No threats detected.''"

text \<open>
  The body of \<^verbatim>\<open>if st.button("Detect Anomalies")\<close>, on the test features and the combined
  frame as it is at that point. \<^verbatim>\<open>[None] * k\<close> is the empty list for \<open>k \<le> 0\<close>, which is
  what the subtraction on \<open>nat\<close> gives; assigning a list whose length is not the number of
  rows raises. The result is the frame with the new column, the flagged rows, and what is
  shown.
\<close>

definition anomaly_label :: "int \<Rightarrow> string" where
  "anomaly_label p = (if p = - 1 then ''Anomaly'' else ''Normal'')"

definition detect_anomalies ::
  "predictor \<Rightarrow> matrix \<Rightarrow> frame \<Rightarrow> py_error + (frame \<times> frame \<times> ui_event list)" where
  "detect_anomalies anomaly_detector X_test combined_data =
     (if X_test = [] then Inl ValueError
      else let anomaly_predictions = map anomaly_label (map anomaly_detector X_test);
               padded = map Some anomaly_predictions
                        @ replicate (nrows combined_data - length anomaly_predictions) None
           in if length padded \<noteq> nrows combined_data then Inl ValueError
              else let combined = set_column ''Anomaly Prediction'' (ObjCol padded) combined_data;
                       suspicious = filter_rows (map (\<lambda>v. v = Some ''Anomaly'') padded) combined
                   in Inr (combined, suspicious,
                           [St_subheader ''Suspicious Activities Detected'',
                            St_dataframe suspicious,
                            if nrows suspicious \<noteq> 0 then St_error alert_msg
                            else St_success no_threat_msg]))"



section \<open>Example inputs\<close>

text \<open>
  Small concrete inputs on which the theorems below are instantiated: a classifier and a
  detector given as functions, two parsed files of one chunk each, and library functions
  that are enough for these files (a mean of two floats that is exact for the small values
  used, one chunk per file, no categorical feature, a split that puts the last row into
  the test partition).
\<close>

definition example_model :: predictor where
  "example_model row = (if row = [1] then 1 else 0)"

definition example_detector :: predictor where
  "example_detector row = (if row = [5] then - 1 else 1)"

definition example_chunk :: frame where
  "example_chunk = [(''Label '', ObjCol [Some ''attack'', Some ''normal'']), (''x'', IntCol [1, 2])]"

definition example_mean :: "real \<Rightarrow> real \<Rightarrow> fval" where
  "example_mean a b = Fin ((a + b) / 2)"

definition example_libs :: "(frame, unit) libs" where
  "example_libs =
     \<lparr>float_mean = example_mean,
      read_csv = (\<lambda>file chunksize. [file]),
      pd_concat = (\<lambda>frames. case frames of [] \<Rightarrow> Inl ValueError | df # _ \<Rightarrow> Inr df),
      get_dummies = (\<lambda>df cols drop_first. df),
      scaler_fit_transform = (\<lambda>X. Inr ((), [[1], [2], [3], [4], [5]])),
      train_test_split =
        (\<lambda>X y test_size seed stratify.
           case y of IntCol ys \<Rightarrow> Inr (take 4 X, drop 4 X, take 4 ys, drop 4 ys)
                   | _ \<Rightarrow> Inl ValueError),
      random_forest_fit = (\<lambda>n seed X y. Inr (\<lambda>row. 0)),
      isolation_forest_fit = (\<lambda>c seed X. Inr (\<lambda>row. if row = [5] then - 1 else 1))\<rparr>"


section \<open>Properties of missing-value handling\<close>

lemma finite_part_inf_to_nan: "finite_part (map inf_to_nan vs) = finite_part vs"
  by (induction vs rule: finite_part.induct) (simp_all add: inf_to_nan_def)

lemma series_median_inf_to_nan: "series_median fm (map inf_to_nan vs) = series_median fm vs"
  by (simp add: series_median_def finite_part_inf_to_nan)

lemma fill_after_replace: "(if inf_to_nan v = NaN then m else inf_to_nan v) = imputed m v"
  by (cases v) (simp_all add: inf_to_nan_def imputed_def is_fin_def)

lemma fillna_replaced:
  "fillna (series_median fm (map inf_to_nan vs)) (map inf_to_nan vs)
     = map (imputed (series_median fm vs)) vs"
  by (simp add: fillna_def series_median_inf_to_nan fill_after_replace)

lemma fill_median_replace_inf: "fill_median fm (replace_inf c) = impute_col fm c"
  by (cases c) (simp_all add: fillna_replaced)

lemma list_all_imputed: "is_fin m \<Longrightarrow> list_all is_fin (map (imputed m) vs)"
  by (induction vs) (auto simp: imputed_def)

lemma map_cols_map_cols: "map_cols f (map_cols g df) = map_cols (\<lambda>c. f (g c)) df"
  by (induction df) (auto simp: map_cols_def)

lemma map_of_map_cols:
  "map_of (map_cols f df) k = map_option f (map_of df k)"
  by (induction df) (auto simp: map_cols_def)

lemma columns_map_cols: "columns (map_cols f df) = columns df"
  by (induction df) (auto simp: columns_def map_cols_def)

lemma in_map_cols:
  "(k, c) \<in> set (map_cols f df) \<longleftrightarrow> (\<exists>c'. (k, c') \<in> set df \<and> c = f c')"
  by (induction df) (auto simp: map_cols_def)

lemma handle_missing_values_columns: "columns (fst (handle_missing_values fm df)) = columns df"
  by (simp add: handle_missing_values_def Let_def columns_map_cols filter_rows_def)

lemma map_of_in_frame: "distinct (columns df) \<Longrightarrow> (c, col) \<in> set df \<Longrightarrow> map_of df c = Some col"
  by (simp add: columns_def)

lemma map_of_no_column: "map_of df c = None \<longleftrightarrow> c \<notin> set (columns df)"
  by (simp add: columns_def map_of_eq_None_iff)

lemma named_columns_single:
  "distinct (columns df) \<Longrightarrow> map_of df k = Some v \<Longrightarrow> named_columns k df = [v]"
proof (induction df)
  case Nil
  then show ?case by simp
next
  case (Cons p df)
  obtain n c where p: "p = (n, c)" by (cases p)
  show ?case
  proof (cases "n = k")
    case True
    with Cons.prems p have "k \<notin> fst ` set df" and "v = c"
      by (auto simp: columns_def)
    then have "filter (\<lambda>(n, c). n = k) df = []"
      by (force simp: filter_empty_conv)
    with True p \<open>v = c\<close> show ?thesis
      by (simp add: named_columns_def)
  next
    case False
    with Cons p show ?thesis
      by (simp add: named_columns_def columns_def)
  qed
qed

lemma and_all_True:
  "length xs = n \<Longrightarrow> map (\<lambda>(a, b). a \<and> b) (zip xs (replicate n True)) = xs"
  by (induction xs arbitrary: n) auto

lemma length_notna: "length (notna c) = col_len c"
  by (cases c) simp_all

lemma dropna_mask_single:
  assumes "wf_frame df" and "map_of df ''Label'' = Some lab"
  shows "all_notna (named_columns ''Label'' df) (nrows df) = notna lab"
proof -
  from assms(2) have "(''Label'', lab) \<in> set df"
    by (rule map_of_SomeD)
  with assms(1) have "col_len lab = nrows df"
    by (auto simp: wf_frame_def list_all_iff)
  moreover from assms have "named_columns ''Label'' df = [lab]"
    by (simp add: wf_frame_def named_columns_single)
  ultimately show ?thesis
    by (simp add: and_all_True length_notna)
qed

text \<open>
  Claim C1, as amended. For a batch with no column named \<^verbatim>\<open>Label\<close>,
  \<^verbatim>\<open>handle_missing_values\<close> shows the error message and then carries on with the same
  batch. When the column names are pairwise different, all columns and rows are kept, and
  the batch comes back with every infinite or missing entry of a float column replaced by
  the median of the column's finite entries (left missing when the column has none); the
  columns of other types are unchanged. The fill reaches the batch as it does in pandas
  without copy-on-write.
\<close>

theorem handle_missing_values_no_label:
  assumes "''Label'' \<notin> set (columns df)"
  shows "snd (handle_missing_values fm df) = [St_error label_missing_msg]
         \<and> (distinct (columns df) \<longrightarrow>
              columns (fst (handle_missing_values fm df)) = columns df
              \<and> fst (handle_missing_values fm df) = map_cols (impute_col fm) df)"
  using assms
  by (simp add: handle_missing_values_def Let_def columns_map_cols map_cols_map_cols
      fill_median_replace_inf)

theorem handle_missing_values_no_label_witness:
  "''Label'' \<notin> set (columns [(''n'', IntCol [1, 2, 3, 4]),
                               (''x'', FloatCol [Fin 1, NaN, Fin 2, Fin 3])])
   \<and> distinct (columns [(''n'', IntCol [1, 2, 3, 4]),
                         (''x'', FloatCol [Fin 1, NaN, Fin 2, Fin 3])])
   \<and> handle_missing_values example_mean
        [(''n'', IntCol [1, 2, 3, 4]), (''x'', FloatCol [Fin 1, NaN, Fin 2, Fin 3])]
       = ([(''n'', IntCol [1, 2, 3, 4]), (''x'', FloatCol [Fin 1, Fin 2, Fin 2, Fin 3])],
          [St_error label_missing_msg])"
  using handle_missing_values_no_label
          [of "[(''n'', IntCol [1, 2, 3, 4]), (''x'', FloatCol [Fin 1, NaN, Fin 2, Fin 3])]"
              example_mean]
  by (simp add: columns_def map_cols_def imputed_def is_fin_def series_median_def median_def
      prod_eq_iff)

text \<open>
  The claim as first stated, that processing does not go on for such a batch, fails: the
  batch below has no label column, and the missing entry of \<^verbatim>\<open>x\<close> comes back imputed.
\<close>

theorem handle_missing_values_no_label_counterexample:
  "''Label'' \<notin> set (columns [(''x'', FloatCol [Fin 1, NaN, Fin 2, Fin 3])])
   \<and> handle_missing_values example_mean [(''x'', FloatCol [Fin 1, NaN, Fin 2, Fin 3])]
       = ([(''x'', FloatCol [Fin 1, Fin 2, Fin 2, Fin 3])], [St_error label_missing_msg])"
  by (simp add: handle_missing_values_def columns_def fillna_def series_median_def median_def
      inf_to_nan_def map_cols_def)

text \<open>
  Claim C2, as amended. For a batch with a \<^verbatim>\<open>Label\<close> column (pairwise different column
  names, all columns of one length), every float column of the batch returned by
  \<^verbatim>\<open>handle_missing_values\<close> holds exactly the rows whose label is present; its finite
  entries are unchanged, and every entry that was missing or infinite is replaced by the
  median that is computed from the column's finite entries over those rows: the middle
  entry, or the \<^verbatim>\<open>float64\<close> mean of the two middle entries. Whenever that median is
  finite, the column has no missing and no infinite entry. The fill reaches the batch as
  it does in pandas without copy-on-write.
\<close>

theorem handle_missing_values_imputes:
  assumes "wf_frame df" and "map_of df ''Label'' = Some lab"
    and "(c, FloatCol xs) \<in> set df"
  shows "map_of (fst (handle_missing_values fm df)) c =
           Some (FloatCol (map (imputed (series_median fm (keep (notna lab) xs)))
                               (keep (notna lab) xs)))
         \<and> (is_fin (series_median fm (keep (notna lab) xs)) \<longrightarrow>
              list_all is_fin (map (imputed (series_median fm (keep (notna lab) xs)))
                                   (keep (notna lab) xs)))"
proof -
  from assms(1,3) have col: "map_of df c = Some (FloatCol xs)"
    by (simp add: wf_frame_def map_of_in_frame)
  from assms(2) have present: "''Label'' \<in> set (columns df)"
    using map_of_no_column [of df "''Label''"] by simp
  from assms(1,2) have mask: "all_notna (named_columns ''Label'' df) (nrows df) = notna lab"
    by (rule dropna_mask_single)
  from col present mask show ?thesis
    by (simp add: handle_missing_values_def Let_def map_of_map_cols filter_rows_def
        fillna_replaced list_all_imputed)
qed

theorem handle_missing_values_imputes_witness:
  "wf_frame [(''Label'', ObjCol [Some ''a'', None, Some ''b'', Some ''c'', Some ''d'']),
             (''x'', FloatCol [Fin 1, Fin 100, PInf, Fin 3, Fin 5])]
   \<and> is_fin (series_median example_mean
               (keep (notna (ObjCol [Some ''a'', None, Some ''b'', Some ''c'', Some ''d'']))
                     [Fin 1, Fin 100, PInf, Fin 3, Fin 5]))
   \<and> map_of (fst (handle_missing_values example_mean
        [(''Label'', ObjCol [Some ''a'', None, Some ''b'', Some ''c'', Some ''d'']),
         (''x'', FloatCol [Fin 1, Fin 100, PInf, Fin 3, Fin 5])])) ''x''
       = Some (FloatCol [Fin 1, Fin 3, Fin 3, Fin 5])"
  using handle_missing_values_imputes
          [of "[(''Label'', ObjCol [Some ''a'', None, Some ''b'', Some ''c'', Some ''d'']),
                (''x'', FloatCol [Fin 1, Fin 100, PInf, Fin 3, Fin 5])]"
              "ObjCol [Some ''a'', None, Some ''b'', Some ''c'', Some ''d'']" "''x''"
              "[Fin 1, Fin 100, PInf, Fin 3, Fin 5]" example_mean]
  by (simp add: wf_frame_def columns_def nrows_def keep_def imputed_def is_fin_def
      series_median_def median_def)

text \<open>
  The claim as first stated fails: a column with no finite entry has no median, and its
  entries stay missing.
\<close>

theorem handle_missing_values_imputes_counterexample:
  "wf_frame [(''Label'', ObjCol [Some ''a'']), (''x'', FloatCol [NaN])]
   \<and> fst (handle_missing_values example_mean
            [(''Label'', ObjCol [Some ''a'']), (''x'', FloatCol [NaN])])
       = [(''Label'', ObjCol [Some ''a'']), (''x'', FloatCol [NaN])]"
  by (simp add: wf_frame_def columns_def nrows_def handle_missing_values_def fillna_def
      series_median_def inf_to_nan_def map_cols_def filter_rows_def keep_def named_columns_def)

text \<open>
  It also fails where the median is not finite: when the mean of the two middle entries
  overflows, the missing entry is filled with an infinity.
\<close>

lemma handle_missing_values_overflow:
  assumes "fm a a = PInf"
  shows "fst (handle_missing_values fm
                [(''Label'', ObjCol [Some ''a'', Some ''b'', Some ''c'']),
                 (''x'', FloatCol [Fin a, Fin a, NaN])])
           = [(''Label'', ObjCol [Some ''a'', Some ''b'', Some ''c'']),
              (''x'', FloatCol [Fin a, Fin a, PInf])]"
  using assms
  by (simp add: columns_def nrows_def handle_missing_values_def fillna_def
      series_median_def median_def inf_to_nan_def map_cols_def filter_rows_def keep_def
      named_columns_def)

section \<open>Properties of loading\<close>

lemma in_set_column:
  "(k, c) \<in> set (set_column k col df) \<Longrightarrow> c = col"
  by (force simp: set_column_def columns_def split: if_splits)

lemma map_of_set_column: "map_of (set_column k c df) k = Some c"
proof (cases "k \<in> set (columns df)")
  case True
  then have "map_of (map (\<lambda>(n, c'). (n, if n = k then c else c')) df) k = Some c"
    by (induction df) (auto simp: columns_def)
  with True show ?thesis
    by (simp add: set_column_def)
next
  case False
  then have "map_of df k = None"
    by (simp add: map_of_no_column)
  with False show ?thesis
    by (simp add: set_column_def map_add_def [symmetric] map_add_Some_iff)
qed

lemma columns_set_column_present:
  "k \<in> set (columns df) \<Longrightarrow> columns (set_column k c df) = columns df"
  by (simp add: set_column_def columns_def comp_def case_prod_beta)

lemma set_column_present: "k \<in> set (columns (set_column k c df))"
  by (cases "k \<in> set (columns df)") (simp_all add: columns_set_column_present, simp add: set_column_def columns_def)

lemma nrows_set_column:
  "df \<noteq> [] \<Longrightarrow> col_len c = nrows df \<Longrightarrow> nrows (set_column k c df) = nrows df"
  by (cases df) (auto simp: nrows_def set_column_def)

lemma nrows_set_column_any: "col_len c = nrows df \<Longrightarrow> nrows (set_column k c df) = nrows df"
  by (cases df) (auto simp: nrows_def set_column_def columns_def)

text \<open>Cutting a name into its characters loses nothing.\<close>

lemma utf8_chars_concat: "concat (utf8_chars s) = s"
  by (induction s) (auto split: list.splits)

lemma nrows_strip_columns: "nrows (strip_columns df) = nrows df"
  by (cases df) (auto simp: nrows_def strip_columns_def)

lemma columns_strip_columns: "columns (strip_columns df) = map strip (columns df)"
  by (simp add: strip_columns_def columns_def case_prod_beta)

lemma keep_all: "keep (replicate n True) (replicate n v) = replicate n v"
  by (simp add: keep_def zip_replicate)

lemma named_columns_set_column:
  "\<exists>k. named_columns name (set_column name col df) = replicate (Suc k) col"
proof -
  have "set (named_columns name (set_column name col df)) \<subseteq> {col}"
    using in_set_column [of name _ col df] by (auto simp: named_columns_def)
  moreover have "named_columns name (set_column name col df) \<noteq> []"
    using set_column_present [of name col df]
    by (auto simp: named_columns_def columns_def filter_empty_conv)
  ultimately obtain n where n: "named_columns name (set_column name col df) = replicate n col"
    and "n \<noteq> 0"
    by (metis length_0_conv replicate_eqI singletonD subsetD)
  then show ?thesis
    by (cases n) auto
qed

lemma all_notna_present:
  "notna col = replicate n True \<Longrightarrow> all_notna (replicate k col) n = replicate n True"
  by (induction k) (simp_all add: zip_replicate)

lemma load_chunk_default_label:
  assumes "''label'' \<notin> set (map strip (columns chunk))"
    and "''Class'' \<notin> set (map strip (columns chunk))"
    and "(''Label'', c) \<in> set (fst (load_chunk fm chunk))"
  shows "c = CatCol (replicate (nrows chunk) (Some ''normal''))"
proof -
  let ?n = "nrows chunk"
  let ?col = "ObjCol (replicate ?n (Some ''normal''))"
  let ?chunk1 = "set_column ''Label'' ?col (strip_columns chunk)"
  have n1: "nrows ?chunk1 = ?n"
    by (simp add: nrows_set_column_any nrows_strip_columns)
  obtain k where "named_columns ''Label'' ?chunk1 = replicate (Suc k) ?col"
    using named_columns_set_column by blast
  moreover have "notna ?col = replicate ?n True"
    by simp
  ultimately
  have mask: "all_notna (named_columns ''Label'' ?chunk1) (nrows ?chunk1) = replicate ?n True"
    by (simp only: n1 all_notna_present)
  have run: "fst (load_chunk fm chunk)
               = map_cols to_category (map_cols downcast_float (map_cols (fill_median fm)
                   (map_cols replace_inf (map_cols (take_rows (replicate ?n True)) ?chunk1))))"
    using assms(1,2) mask
    by (simp add: load_chunk_def optimize_memory_usage_def handle_missing_values_def Let_def
        split_beta columns_strip_columns nrows_strip_columns set_column_present filter_rows_def)
  from assms(3) obtain c' where c': "(''Label'', c') \<in> set ?chunk1"
    and c: "c = to_category (downcast_float (fill_median fm (replace_inf
                  (take_rows (replicate ?n True) c'))))"
    unfolding run by (auto simp: in_map_cols)
  from c' have "c' = ?col"
    by (rule in_set_column)
  with c show ?thesis
    by (simp add: keep_all)
qed

lemma optimize_memory_usage_columns: "columns (fst (optimize_memory_usage fm df)) = columns df"
  by (simp add: optimize_memory_usage_def Let_def split_beta columns_map_cols
      handle_missing_values_columns)

lemma load_chunk_columns:
  assumes "''Label'' \<in> set (map strip (columns chunk))"
    and "''label'' \<notin> set (map strip (columns chunk))"
    and "''Class'' \<notin> set (map strip (columns chunk))"
  shows "columns (fst (load_chunk fm chunk)) = map strip (columns chunk)"
  using assms
  by (simp add: load_chunk_def Let_def optimize_memory_usage_columns columns_strip_columns
      columns_set_column_present)

text \<open>
  Claim C9, as amended. Take a chunk read from an uploaded file whose column names, once
  the loader has stripped them, include \<^verbatim>\<open>Label\<close> but neither \<^verbatim>\<open>label\<close> nor \<^verbatim>\<open>Class\<close>,
  the other stripped names being pairwise different. The chunk that
  \<^verbatim>\<open>load_and_combine_data\<close> appends to its list has the same columns in the same order
  (no column is added), and every column named \<^verbatim>\<open>Label\<close> in it is the constant
  \<^verbatim>\<open>normal\<close> on every row, whatever the labels in the file were.
\<close>

theorem load_and_combine_data_overwrites_label:
  assumes "uploaded_file \<in> set uploaded_files"
    and "chunk \<in> set (read_csv L uploaded_file 10000)"
    and "''Label'' \<in> set (map strip (columns chunk))"
    and "''label'' \<notin> set (map strip (columns chunk))"
    and "''Class'' \<notin> set (map strip (columns chunk))"
    and "distinct (filter (\<lambda>n. n \<noteq> ''Label'') (map strip (columns chunk)))"
  shows "load_chunk (float_mean L) chunk \<in> set (combined_chunks L uploaded_files)
         \<and> columns (fst (load_chunk (float_mean L) chunk)) = map strip (columns chunk)
         \<and> (\<forall>c. (''Label'', c) \<in> set (fst (load_chunk (float_mean L) chunk))
                \<longrightarrow> c = CatCol (replicate (nrows chunk) (Some ''normal'')))"
proof -
  from assms(1,2)
  have "load_chunk (float_mean L) chunk \<in> set (combined_chunks L uploaded_files)"
    by (auto simp: combined_chunks_def)
  moreover from assms(3,4,5)
  have "columns (fst (load_chunk (float_mean L) chunk)) = map strip (columns chunk)"
    by (rule load_chunk_columns)
  moreover from assms(4,5)
  have "\<forall>c. (''Label'', c) \<in> set (fst (load_chunk (float_mean L) chunk))
              \<longrightarrow> c = CatCol (replicate (nrows chunk) (Some ''normal''))"
    by (blast intro: load_chunk_default_label)
  ultimately show ?thesis
    by blast
qed

theorem load_and_combine_data_overwrites_label_witness:
  "example_chunk \<in> set [example_chunk]
   \<and> example_chunk \<in> set (read_csv example_libs example_chunk 10000)
   \<and> ''Label'' \<in> set (map strip (columns example_chunk))
   \<and> ''label'' \<notin> set (map strip (columns example_chunk))
   \<and> ''Class'' \<notin> set (map strip (columns example_chunk))
   \<and> distinct (filter (\<lambda>n. n \<noteq> ''Label'') (map strip (columns example_chunk)))
   \<and> load_chunk example_mean example_chunk \<in> set (combined_chunks example_libs [example_chunk])
   \<and> fst (load_chunk example_mean example_chunk)
       = [(''Label'', CatCol [Some ''normal'', Some ''normal'']),
          (''x'', FloatCol [Fin 1, Fin 2])]"
proof -
  have h1: "example_chunk \<in> set [example_chunk]"
    by simp
  have h2: "example_chunk \<in> set (read_csv example_libs example_chunk 10000)"
    by (simp add: example_libs_def)
  have names: "map strip (columns example_chunk) = [''Label'', ''x'']"
    by (simp add: example_chunk_def columns_def strip_def is_space_def is_continuation_def)
  have h3: "''Label'' \<in> set (map strip (columns example_chunk))"
    and h4: "''label'' \<notin> set (map strip (columns example_chunk))"
    and h5: "''Class'' \<notin> set (map strip (columns example_chunk))"
    and h6: "distinct (filter (\<lambda>n. n \<noteq> ''Label'') (map strip (columns example_chunk)))"
    by (simp_all add: names)
  have fm: "float_mean example_libs = example_mean"
    by (simp add: example_libs_def)
  have run: "fst (load_chunk example_mean example_chunk)
       = [(''Label'', CatCol [Some ''normal'', Some ''normal'']),
          (''x'', FloatCol [Fin 1, Fin 2])]"
    by (simp add: load_chunk_def example_chunk_def strip_columns_def strip_def is_space_def
        is_continuation_def columns_def set_column_def nrows_def optimize_memory_usage_def
        handle_missing_values_def named_columns_def filter_rows_def map_cols_def keep_def
        fillna_def series_median_def median_def inf_to_nan_def)
  from load_and_combine_data_overwrites_label [OF h1 h2 h3 h4 h5 h6] h1 h2 h3 h4 h5 h6 run
  show ?thesis
    by (simp add: fm)
qed

text \<open>
  The claim as first stated takes the names as they are in the uploaded file. It fails for
  a file whose header has \<^verbatim>\<open>Label\<close> and, after a space, \<^verbatim>\<open>label\<close>: neither of the two
  names is \<^verbatim>\<open>label\<close> or \<^verbatim>\<open>Class\<close>, but the second is \<^verbatim>\<open>label\<close> once stripped, the
  loader renames it, and the labels of the file are kept.
\<close>

theorem load_and_combine_data_overwrites_label_counterexample:
  "''Label'' \<in> set (columns [(''Label'', ObjCol [Some ''attack'']),
                               ('' label'', ObjCol [Some ''dos''])])
   \<and> ''label'' \<notin> set (columns [(''Label'', ObjCol [Some ''attack'']),
                                  ('' label'', ObjCol [Some ''dos''])])
   \<and> ''Class'' \<notin> set (columns [(''Label'', ObjCol [Some ''attack'']),
                                  ('' label'', ObjCol [Some ''dos''])])
   \<and> fst (load_chunk example_mean [(''Label'', ObjCol [Some ''attack'']),
                                    ('' label'', ObjCol [Some ''dos''])])
       = [(''Label'', CatCol [Some ''attack'']), (''Label'', CatCol [Some ''dos''])]"
  by (simp add: load_chunk_def strip_columns_def strip_def is_space_def is_continuation_def
      columns_def rename_column_def nrows_def optimize_memory_usage_def
      handle_missing_values_def named_columns_def filter_rows_def map_cols_def keep_def)

text \<open>A name that ends in a no-break space (U+00A0) is stripped like one that ends in a
  space.\<close>

lemma strip_no_break_space: "strip (''label'' @ [CHR 0xC2, CHR 0xA0]) = ''label''"
  by (simp add: strip_def is_space_def is_continuation_def)

text \<open>Every chunk has a label column by the time its missing values are handled, so the
  loader never shows the error of \<^verbatim>\<open>handle_missing_values\<close>.\<close>

lemma handle_missing_values_silent:
  "''Label'' \<in> set (columns df) \<Longrightarrow> snd (handle_missing_values fm df) = []"
  by (simp add: handle_missing_values_def)

lemma rename_column_present:
  "old \<in> set (columns df) \<Longrightarrow> new \<in> set (columns (rename_column old new df))"
  by (force simp: rename_column_def columns_def)

lemma load_chunk_silent: "snd (load_chunk fm chunk) = []"
  by (simp add: load_chunk_def optimize_memory_usage_def Let_def split_beta
      handle_missing_values_silent rename_column_present set_column_present)

section \<open>Properties of the evaluation\<close>

lemma sum_list_indicator:
  "(\<Sum>x\<leftarrow>xs. if P x then 1 else 0) = real (length (filter P xs))"
  by (induction xs) auto

lemma accuracy_score_matches:
  "accuracy_score y_true y_pred
     = real (length (filter (\<lambda>(t, p). t = p) (zip y_true y_pred))) / real (length y_true)"
proof -
  have "(\<Sum>(t, p)\<leftarrow>zip y_true y_pred. if t = p then 1 else 0)
          = (\<Sum>x\<leftarrow>zip y_true y_pred. if (case x of (t, p) \<Rightarrow> t = p) then 1 else (0::real))"
    by (rule arg_cong [where f = sum_list]) (auto intro: map_cong)
  then show ?thesis
    by (simp add: accuracy_score_def sum_list_indicator)
qed

lemma matches_card:
  assumes "length ys = length xs"
  shows "length (filter (\<lambda>(t, p). t = p) (zip ys (map f xs)))
           = card {i. i < length xs \<and> f (xs ! i) = ys ! i}"
proof -
  have "{i. i < length (zip ys (map f xs)) \<and> (case zip ys (map f xs) ! i of (t, p) \<Rightarrow> t = p)}
          = {i. i < length xs \<and> f (xs ! i) = ys ! i}"
    using assms by auto
  then show ?thesis
    by (simp add: length_filter_conv_card)
qed

text \<open>
  Claim C4. For every fitted classifier and every non-empty test partition with one label
  per row, \<^verbatim>\<open>evaluate_model\<close> returns, and the accuracy it shows is the number of test
  rows whose predicted label equals the true label, divided by the number of test rows.
\<close>

theorem evaluate_model_accuracy:
  assumes "X_test \<noteq> []" and "length y_test = length X_test"
  shows "\<exists>shown. evaluate_model model X_test y_test = Inr shown
           \<and> shown ! 1 = St_write_accuracy
                 (real (card {i. i < length X_test \<and> model (X_test ! i) = y_test ! i})
                  / real (length X_test))"
  using assms
  by (simp add: evaluate_model_def Let_def accuracy_score_matches matches_card)

theorem evaluate_model_accuracy_witness:
  "[[0], [1], [0::real]] \<noteq> [] \<and> length [0, 1, 1::int] = length [[0], [1], [0::real]]
   \<and> (\<exists>shown. evaluate_model example_model [[0], [1], [0]] [0, 1, 1] = Inr shown
         \<and> shown ! 1 = St_write_accuracy (2 / 3))"
  using evaluate_model_accuracy [of "[[0], [1], [0]]" "[0, 1, 1]" example_model]
  by (simp add: evaluate_model_def Let_def accuracy_score_def example_model_def)

lemma sum_list_hit:
  "distinct ls \<Longrightarrow> (\<Sum>p\<leftarrow>ls. if b = p then 1 else 0) = (if b \<in> set ls then 1 else (0::nat))"
  by (induction ls) auto

lemma row_sum_counts:
  assumes "distinct ls" and "snd ` set ps \<subseteq> set ls"
  shows "(\<Sum>p\<leftarrow>ls. length (filter (\<lambda>(a, b). a = t \<and> b = p) ps))
           = length (filter (\<lambda>(a, b). a = t) ps)"
  using assms(2)
proof (induction ps)
  case Nil
  then show ?case by simp
next
  case (Cons x ps)
  obtain a b where x: "x = (a, b)" by (cases x)
  from Cons.prems x have b: "b \<in> set ls" and rest: "snd ` set ps \<subseteq> set ls"
    by auto
  have "(\<Sum>p\<leftarrow>ls. length (filter (\<lambda>(a, b). a = t \<and> b = p) (x # ps)))
          = (\<Sum>p\<leftarrow>ls. (if a = t \<and> b = p then 1 else 0)
                        + length (filter (\<lambda>(a, b). a = t \<and> b = p) ps))"
    by (rule arg_cong [where f = sum_list]) (simp add: x)
  also have "\<dots> = (\<Sum>p\<leftarrow>ls. if a = t \<and> b = p then 1 else 0)
                   + (\<Sum>p\<leftarrow>ls. length (filter (\<lambda>(a, b). a = t \<and> b = p) ps))"
    by (simp add: sum_list_addf)
  also have "(\<Sum>p\<leftarrow>ls. if a = t \<and> b = p then 1 else 0) = (if a = t then 1 else (0::nat))"
    using sum_list_hit [OF assms(1), of b] b by (cases "a = t") simp_all
  finally show ?case
    using Cons.IH [OF rest] by (simp add: x)
qed

lemma unique_labels_distinct: "distinct (unique_labels y_true y_pred)"
  by (simp add: unique_labels_def)

lemma unique_labels_set: "set (unique_labels y_true y_pred) = set y_true \<union> set y_pred"
  by (simp add: unique_labels_def)

lemma zip_snd_subset: "snd ` set (zip xs ys) \<subseteq> set ys"
  by (auto dest: set_zip_rightD)

lemma confusion_matrix_row:
  assumes "i < length (unique_labels y_true y_pred)"
  shows "sum_list (confusion_matrix y_true y_pred ! i)
           = length (filter (\<lambda>(a, b). a = unique_labels y_true y_pred ! i) (zip y_true y_pred))"
proof -
  have "snd ` set (zip y_true y_pred) \<subseteq> set (unique_labels y_true y_pred)"
    using zip_snd_subset [of y_true y_pred] by (auto simp: unique_labels_set)
  with assms show ?thesis
    by (simp add: confusion_matrix_def Let_def row_sum_counts unique_labels_distinct)
qed

lemma filter_zip_fst:
  "length xs = length ys \<Longrightarrow>
   length (filter (\<lambda>(a, b). P a) (zip xs ys)) = length (filter P xs)"
  by (induction xs ys rule: list_induct2) auto

lemma filter_zip_map:
  "filter (\<lambda>(a, b). Q a b) (zip ys (map f xs))
     = map (\<lambda>(a, x). (a, f x)) (filter (\<lambda>(a, x). Q a (f x)) (zip ys xs))"
proof (induction ys arbitrary: xs)
  case Nil
  then show ?case by simp
next
  case (Cons y ys)
  then show ?case by (cases xs) auto
qed

text \<open>
  Claim C5. The confusion matrix shown by \<^verbatim>\<open>evaluate_model\<close> has one row per class.
  The sum of row \<open>i\<close> is the number of test rows whose true label is the class of that
  row, and the diagonal entry of row \<open>i\<close> is the number of test rows of that class that
  the classifier predicts as that class.
\<close>

theorem evaluate_model_confusion_matrix:
  assumes "X_test \<noteq> []" and "length y_test = length X_test"
    and "i < length (unique_labels y_test (map model X_test))"
  shows "\<exists>shown cm. evaluate_model model X_test y_test = Inr shown
           \<and> shown ! 4 = St_write_matrix cm
           \<and> length cm = length (unique_labels y_test (map model X_test))
           \<and> sum_list (cm ! i)
               = length (filter (\<lambda>t. t = unique_labels y_test (map model X_test) ! i) y_test)
           \<and> cm ! i ! i
               = length (filter (\<lambda>(t, x). t = unique_labels y_test (map model X_test) ! i
                                          \<and> model x = unique_labels y_test (map model X_test) ! i)
                                (zip y_test X_test))"
proof -
  let ?pred = "map model X_test"
  let ?ls = "unique_labels y_test ?pred"
  let ?cm = "confusion_matrix y_test ?pred"
  have run: "evaluate_model model X_test y_test
               = Inr [St_write ''### Model Performance'',
                      St_write_accuracy (accuracy_score y_test ?pred),
                      St_text_report y_test ?pred,
                      St_write ''#### Confusion Matrix'',
                      St_write_matrix ?cm]"
    using assms(1,2) by (simp add: evaluate_model_def Let_def)
  have len: "length ?cm = length ?ls"
    by (simp add: confusion_matrix_def Let_def)
  have "sum_list (?cm ! i) = length (filter (\<lambda>(a, b). a = ?ls ! i) (zip y_test ?pred))"
    using assms(3) by (rule confusion_matrix_row)
  also have "\<dots> = length (filter (\<lambda>t. t = ?ls ! i) y_test)"
    using assms(2) by (simp add: filter_zip_fst)
  finally have row: "sum_list (?cm ! i) = length (filter (\<lambda>t. t = ?ls ! i) y_test)" .
  have "?cm ! i ! i
          = length (filter (\<lambda>(a, b). a = ?ls ! i \<and> b = ?ls ! i) (zip y_test ?pred))"
    using assms(3) by (simp add: confusion_matrix_def Let_def)
  also have "\<dots> = length (filter (\<lambda>(t, x). t = ?ls ! i \<and> model x = ?ls ! i) (zip y_test X_test))"
    by (simp add: filter_zip_map [where Q = "\<lambda>a b. a = ?ls ! i \<and> b = ?ls ! i"])
  finally have diag: "?cm ! i ! i
      = length (filter (\<lambda>(t, x). t = ?ls ! i \<and> model x = ?ls ! i) (zip y_test X_test))" .
  from run len row diag show ?thesis
    by simp
qed

theorem evaluate_model_confusion_matrix_witness:
  "(0::nat) < length (unique_labels [0, 1, 1] (map example_model [[0], [1], [0]]))
   \<and> (\<exists>shown. evaluate_model example_model [[0], [1], [0]] [0, 1, 1] = Inr shown
         \<and> shown ! 4 = St_write_matrix [[1, 0], [1, 1]])
   \<and> length (filter (\<lambda>t. t = unique_labels [0, 1, 1] (map example_model [[0], [1], [0]]) ! 0)
              [0, 1, 1::int]) = 1"
  using evaluate_model_confusion_matrix [of "[[0], [1], [0]]" "[0, 1, 1]" 0 example_model]
  by (simp add: evaluate_model_def Let_def confusion_matrix_def unique_labels_def example_model_def)

section \<open>Properties of the remote call\<close>

lemma completion_text_present:
  assumes "dict_get body ''choices'' (JArr [JObj []]) = JArr (JObj choice # others)"
  shows "completion_text (JObj body) = Inr (dict_get choice ''text'' (JStr ''No response''))"
  using assms by (simp add: completion_text_def)

lemma completion_text_absent:
  assumes "''choices'' \<notin> fst ` set body"
  shows "completion_text (JObj body) = Inr (JStr ''No response'')"
proof -
  from assms have "map_of (rev body) ''choices'' = None"
    by (simp add: map_of_eq_None_iff)
  then show ?thesis
    by (simp add: completion_text_def dict_get_def)
qed

text \<open>
  Claim C7 at the input where the code departs from it. When the body has a completions
  list and the list is empty, \<^verbatim>\<open>predict_with_groq\<close> does not return the placeholder:
  taking the first element raises \<^verbatim>\<open>IndexError\<close>. The two lemmas above are the cases
  in which the claim holds.
\<close>

theorem predict_with_groq_empty_choices:
  "predict_with_groq (\<lambda>url headers payload. Inr (JObj [(''choices'', JArr [])])) input_data
     = Inl IndexError"
  by (simp add: predict_with_groq_def completion_text_def dict_get_def)

text \<open>A completion that is present is returned.\<close>

lemma predict_with_groq_first:
  "predict_with_groq
     (\<lambda>url headers payload. Inr (JObj [(''choices'', JArr [JObj [(''text'', JStr ''ok'')], JObj []])]))
     input_data = Inr (JStr ''ok'')"
  by (simp add: predict_with_groq_def completion_text_def dict_get_def)

section \<open>Properties of the anomaly step\<close>

lemma set_column_twice: "set_column k c (set_column k c' df) = set_column k c df"
proof (cases "k \<in> set (columns df)")
  case True
  then show ?thesis
    by (simp add: set_column_def columns_def comp_def case_prod_beta)
next
  case False
  then have "map (\<lambda>(n, c''). (n, if n = k then c else c'')) df = df"
    by (induction df) (auto simp: columns_def)
  with False show ?thesis
    by (simp add: set_column_def columns_def)
qed

lemma detect_anomalies_run:
  assumes "X_test \<noteq> []" and "length X_test \<le> nrows combined_data"
  shows "detect_anomalies det X_test combined_data
           = Inr (set_column ''Anomaly Prediction''
                    (ObjCol (map (\<lambda>x. Some (anomaly_label (det x))) X_test
                             @ replicate (nrows combined_data - length X_test) None))
                    combined_data,
                  filter_rows
                    (map (\<lambda>v. v = Some ''Anomaly'')
                       (map (\<lambda>x. Some (anomaly_label (det x))) X_test
                        @ replicate (nrows combined_data - length X_test) None))
                    (set_column ''Anomaly Prediction''
                       (ObjCol (map (\<lambda>x. Some (anomaly_label (det x))) X_test
                                @ replicate (nrows combined_data - length X_test) None))
                       combined_data),
                  [St_subheader ''Suspicious Activities Detected'',
                   St_dataframe
                     (filter_rows
                        (map (\<lambda>v. v = Some ''Anomaly'')
                           (map (\<lambda>x. Some (anomaly_label (det x))) X_test
                            @ replicate (nrows combined_data - length X_test) None))
                        (set_column ''Anomaly Prediction''
                           (ObjCol (map (\<lambda>x. Some (anomaly_label (det x))) X_test
                                    @ replicate (nrows combined_data - length X_test) None))
                           combined_data)),
                   if nrows (filter_rows
                        (map (\<lambda>v. v = Some ''Anomaly'')
                           (map (\<lambda>x. Some (anomaly_label (det x))) X_test
                            @ replicate (nrows combined_data - length X_test) None))
                        (set_column ''Anomaly Prediction''
                           (ObjCol (map (\<lambda>x. Some (anomaly_label (det x))) X_test
                                    @ replicate (nrows combined_data - length X_test) None))
                           combined_data)) \<noteq> 0
                   then St_error alert_msg else St_success no_threat_msg])"
  using assms by (simp add: detect_anomalies_def Let_def comp_def)

lemma detect_anomalies_InrD:
  assumes "detect_anomalies det X_test combined_data = Inr r"
  shows "X_test \<noteq> [] \<and> length X_test \<le> nrows combined_data"
  using assms by (auto simp: detect_anomalies_def Let_def split: if_splits)

text \<open>
  Claim C3. When the detection runs on a non-empty test partition that has no more rows
  than the combined batch, it returns, and the \<^verbatim>\<open>Anomaly Prediction\<close> column of the
  batch has one entry per row: at a position below the length of the test partition the
  entry is \<^verbatim>\<open>Anomaly\<close> if the detector's prediction there is \<open>-1\<close> and \<^verbatim>\<open>Normal\<close>
  otherwise, and at every later position the entry is null.
\<close>

theorem detect_anomalies_column:
  assumes "X_test \<noteq> []" and "length X_test \<le> nrows combined_data"
  shows "\<exists>combined suspicious ui padded.
           detect_anomalies det X_test combined_data = Inr (combined, suspicious, ui)
           \<and> map_of combined ''Anomaly Prediction'' = Some (ObjCol padded)
           \<and> length padded = nrows combined_data
           \<and> nrows combined = nrows combined_data
           \<and> (\<forall>i < length X_test.
                 padded ! i = Some (if det (X_test ! i) = - 1 then ''Anomaly'' else ''Normal''))
           \<and> (\<forall>i. length X_test \<le> i \<and> i < nrows combined_data \<longrightarrow> padded ! i = None)"
proof -
  let ?padded = "map (\<lambda>x. Some (anomaly_label (det x))) X_test
                 @ replicate (nrows combined_data - length X_test) None"
  from assms have ne: "combined_data \<noteq> []"
    by (auto simp: nrows_def)
  from assms(2) have len: "length ?padded = nrows combined_data"
    by simp
  have scored: "\<forall>i < length X_test.
      ?padded ! i = Some (if det (X_test ! i) = - 1 then ''Anomaly'' else ''Normal'')"
    by (simp add: nth_append anomaly_label_def)
  have rest: "\<forall>i. length X_test \<le> i \<and> i < nrows combined_data \<longrightarrow> ?padded ! i = None"
    by (auto simp: nth_append)
  from ne len have "nrows (set_column ''Anomaly Prediction'' (ObjCol ?padded) combined_data)
                      = nrows combined_data"
    by (simp add: nrows_set_column)
  with len scored rest show ?thesis
    unfolding detect_anomalies_run [OF assms]
    by (intro exI conjI) (rule refl, rule map_of_set_column, assumption+)
qed

theorem detect_anomalies_column_witness:
  "[[5], [2::real]] \<noteq> []
   \<and> length [[5], [2::real]] \<le> nrows [(''duration'', FloatCol [Fin 1, Fin 2, Fin 3])]
   \<and> (\<exists>combined suspicious ui.
         detect_anomalies example_detector [[5], [2]]
           [(''duration'', FloatCol [Fin 1, Fin 2, Fin 3])] = Inr (combined, suspicious, ui)
         \<and> map_of combined ''Anomaly Prediction''
             = Some (ObjCol [Some ''Anomaly'', Some ''Normal'', None]))"
  using detect_anomalies_column
          [of "[[5], [2]]" "[(''duration'', FloatCol [Fin 1, Fin 2, Fin 3])]" example_detector]
  by (simp add: detect_anomalies_def Let_def nrows_def example_detector_def anomaly_label_def
      set_column_def columns_def)

text \<open>
  Claim C8. For a fixed detector and a fixed test partition, running the scoring and
  flagging step again on the batch that the first run left behind gives the same batch,
  the same flagged rows and the same display.
\<close>

theorem detect_anomalies_idempotent:
  assumes "detect_anomalies det X_test combined_data = Inr (combined, suspicious, ui)"
  shows "detect_anomalies det X_test combined = Inr (combined, suspicious, ui)"
proof -
  let ?padded = "map (\<lambda>x. Some (anomaly_label (det x))) X_test
                 @ replicate (nrows combined_data - length X_test) None"
  let ?c = "set_column ''Anomaly Prediction'' (ObjCol ?padded) combined_data"
  from assms have pre: "X_test \<noteq> []" "length X_test \<le> nrows combined_data"
    using detect_anomalies_InrD by blast+
  from pre have ne: "combined_data \<noteq> []"
    by (auto simp: nrows_def)
  from assms have c: "combined = ?c"
    unfolding detect_anomalies_run [OF pre] by simp
  from pre(2) have "col_len (ObjCol ?padded) = nrows combined_data"
    by simp
  from nrows_set_column [OF ne this] have n: "nrows ?c = nrows combined_data" .
  have "detect_anomalies det X_test ?c = detect_anomalies det X_test combined_data"
    using pre by (simp add: detect_anomalies_def Let_def comp_def n set_column_twice)
  with assms c show ?thesis
    by simp
qed

theorem detect_anomalies_idempotent_witness:
  "detect_anomalies example_detector [[5], [2]] [(''duration'', FloatCol [Fin 1, Fin 2, Fin 3])]
     = Inr ([(''duration'', FloatCol [Fin 1, Fin 2, Fin 3]),
             (''Anomaly Prediction'', ObjCol [Some ''Anomaly'', Some ''Normal'', None])],
            [(''duration'', FloatCol [Fin 1]),
             (''Anomaly Prediction'', ObjCol [Some ''Anomaly''])],
            [St_subheader ''Suspicious Activities Detected'',
             St_dataframe [(''duration'', FloatCol [Fin 1]),
                           (''Anomaly Prediction'', ObjCol [Some ''Anomaly''])],
             St_error alert_msg])
   \<and> detect_anomalies example_detector [[5], [2]]
        [(''duration'', FloatCol [Fin 1, Fin 2, Fin 3]),
         (''Anomaly Prediction'', ObjCol [Some ''Anomaly'', Some ''Normal'', None])]
     = Inr ([(''duration'', FloatCol [Fin 1, Fin 2, Fin 3]),
             (''Anomaly Prediction'', ObjCol [Some ''Anomaly'', Some ''Normal'', None])],
            [(''duration'', FloatCol [Fin 1]),
             (''Anomaly Prediction'', ObjCol [Some ''Anomaly''])],
            [St_subheader ''Suspicious Activities Detected'',
             St_dataframe [(''duration'', FloatCol [Fin 1]),
                           (''Anomaly Prediction'', ObjCol [Some ''Anomaly''])],
             St_error alert_msg])"
proof -
  have first: "detect_anomalies example_detector [[5], [2]]
                 [(''duration'', FloatCol [Fin 1, Fin 2, Fin 3])]
     = Inr ([(''duration'', FloatCol [Fin 1, Fin 2, Fin 3]),
             (''Anomaly Prediction'', ObjCol [Some ''Anomaly'', Some ''Normal'', None])],
            [(''duration'', FloatCol [Fin 1]),
             (''Anomaly Prediction'', ObjCol [Some ''Anomaly''])],
            [St_subheader ''Suspicious Activities Detected'',
             St_dataframe [(''duration'', FloatCol [Fin 1]),
                           (''Anomaly Prediction'', ObjCol [Some ''Anomaly''])],
             St_error alert_msg])"
    by (simp add: detect_anomalies_def Let_def nrows_def example_detector_def anomaly_label_def
        filter_rows_def map_cols_def keep_def set_column_def columns_def)
  from first detect_anomalies_idempotent [OF first] show ?thesis
    by (rule conjI)
qed

section \<open>Properties of the feature preparation\<close>








end
